theory Spec2Isabelle
  imports Complex_Main
begin

section \<open>Data model\<close>

text \<open>
  A calendar date is kept as its day number (what \<^verbatim>\<open>date.toordinal()\<close> returns), so that
  \<^verbatim>\<open>(a - b).days\<close> is the integer difference of two day numbers.
\<close>

type_synonym date = int

text \<open>
  Modelled from the spec: \<^verbatim>\<open>backend/models.py\<close> is not among the sources. The handlers of
  \<^verbatim>\<open>backend/main.py\<close> read the attributes \<^verbatim>\<open>id\<close>, \<^verbatim>\<open>name\<close> and \<^verbatim>\<open>expiry_date\<close> of a
  \<^verbatim>\<open>PantryItem\<close>; the spec gives their types: an integer id assigned by the store, a name, and
  an optional calendar date.
\<close>

record PantryItem =
  id' :: int
  name :: string
  expiry_date :: "date option"

text \<open>
  The table behind \<^verbatim>\<open>db.query(PantryItem)\<close> is the list of its rows in storage order. The id
  is the primary key of the table: no two rows share it.
\<close>

type_synonym session = "PantryItem list"

definition unique_ids :: "session \<Rightarrow> bool" where
  "unique_ids db = distinct (map id' db)"

text \<open>\<^verbatim>\<open>raise HTTPException(status_code=..., detail=...)\<close> is a value of the result.\<close>

datatype HTTPException = HTTPException (status_code: nat) (detail: string)

text \<open>The dictionaries that the delete handlers return, as JSON objects.\<close>

datatype json = JStr string | JInt int

type_synonym json_object = "(string \<times> json) list"

text \<open>The fields that \<^verbatim>\<open>generate_recipe\<close> passes to the constructor of \<^verbatim>\<open>RecipeResponse\<close>.\<close>

record RecipeResponse =
  recipe :: string
  expiring_items :: "string list"
  total_items :: nat
  items_used :: nat

text \<open>
  The keyword arguments of \<^verbatim>\<open>client.chat.completions.create\<close>. A message is a pair of its
  role and its content; the temperature \<^verbatim>\<open>0.8\<close> is kept as a rational.
\<close>

record chat_request =
  model :: string
  messages :: "(string \<times> string) list"
  temperature :: rat
  max_tokens :: nat

text \<open>
  The external collaborators are parameters. The text-generation client maps a request to
  the content of the first choice of its response, or to \<^verbatim>\<open>str(e)\<close> of the exception \<open>e\<close>
  that the call or the extraction of the content raised (\<open>Inl\<close>). The markdown converter maps
  a text to HTML, or to \<^verbatim>\<open>str(e)\<close> of the exception it raised.
\<close>

type_synonym chat_client = "chat_request \<Rightarrow> string + string"

type_synonym markdown_converter = "string \<Rightarrow> string + string"

section \<open>The pantry handlers\<close>

text \<open>\<^verbatim>\<open>get_pantry_items\<close>: \<^verbatim>\<open>return db.query(PantryItem).all()\<close>. The handler returns the rows
  and the session it leaves behind.\<close>

definition get_pantry_items :: "session \<Rightarrow> PantryItem list \<times> session" where
  "get_pantry_items db = (db, db)"

text \<open>
  \<^verbatim>\<open>db.delete(item); db.commit()\<close> deletes the row whose primary key is that of \<^verbatim>\<open>item\<close>;
  \<^verbatim>\<open>db.query(PantryItem).filter(PantryItem.id == item_id).first()\<close> is the first row with that
  id, or \<^verbatim>\<open>None\<close>.
\<close>

definition session_delete :: "PantryItem \<Rightarrow> session \<Rightarrow> session" where
  "session_delete item db = filter (\<lambda>row. id' row \<noteq> id' item) db"

definition delete_pantry_item :: "int \<Rightarrow> session \<Rightarrow> (HTTPException + json_object) \<times> session" where
  "delete_pantry_item item_id db =
     (case find (\<lambda>row. id' row = item_id) db of
        None \<Rightarrow> (Inl (HTTPException 404 ''Item not found''), db)
      | Some item \<Rightarrow>
          (Inr [(''message'', JStr ''Item deleted successfully''), (''id'', JInt item_id)],
           session_delete item db))"

text \<open>\<^verbatim>\<open>db.query(PantryItem).delete()\<close> deletes every row and returns the number of rows it
  matched.\<close>

definition query_delete :: "session \<Rightarrow> nat \<times> session" where
  "query_delete db = (length db, [])"

text \<open>\<^verbatim>\<open>clear_pantry\<close> calls the bulk delete as a statement: the count it returns is dropped.\<close>

definition clear_pantry :: "session \<Rightarrow> (HTTPException + json_object) \<times> session" where
  "clear_pantry db =
     (let (count, db) = query_delete db
      in (Inr [(''message'', JStr ''Pantry cleared'')], db))"

section \<open>Recipe generation\<close>

text \<open>
  One iteration of the loop over \<^verbatim>\<open>items\<close>, on the pair of the two lists it appends to. A
  date object is always true, so \<^verbatim>\<open>if item.expiry_date\<close> tests that the date is present.
\<close>

definition scan_item :: "date \<Rightarrow> PantryItem \<Rightarrow> string list \<times> string list \<Rightarrow> string list \<times> string list" where
  "scan_item today item acc =
     (case acc of (expiring_soon, all_ingredients) \<Rightarrow>
        let all_ingredients = all_ingredients @ [name item]
        in (case expiry_date item of
              None \<Rightarrow> (expiring_soon, all_ingredients)
            | Some d \<Rightarrow>
                let days_left = d - today
                in if days_left \<le> 3 then (expiring_soon @ [name item], all_ingredients)
                   else (expiring_soon, all_ingredients)))"

fun scan_items :: "date \<Rightarrow> PantryItem list \<Rightarrow> string list \<times> string list \<Rightarrow> string list \<times> string list" where
  "scan_items today [] acc = acc"
| "scan_items today (item # items) acc = scan_items today items (scan_item today item acc)"

text \<open>\<^verbatim>\<open>sep.join(xs)\<close>.\<close>

fun join :: "string \<Rightarrow> string list \<Rightarrow> string" where
  "join sep [] = []"
| "join sep [x] = x"
| "join sep (x # y # ys) = x @ sep @ join sep (y # ys)"

text \<open>The two f-strings, cut at their interpolations.\<close>

definition must_use_header :: string where
  "must_use_header =
     ''You are a creative chef. Generate ONE delicious recipe.\<newline>\<newline>MUST USE (expiring soon - HIGH PRIORITY):\<newline>''"

definition also_available_header :: string where
  "also_available_header = ''\<newline>\<newline>ALSO AVAILABLE:\<newline>''"

definition must_use_requirements :: string where
  "must_use_requirements =
     ''\<newline>\<newline>Requirements:\<newline>- You MUST use at least 2 expiring ingredients\<newline>- 30 minutes or less cook time\<newline>- Portions for 2 people\<newline>- Step-by-step instructions\<newline>- Start with the recipe name''"

definition available_header :: string where
  "available_header =
     ''You are a creative chef. Generate ONE delicious recipe.\<newline>\<newline>AVAILABLE INGREDIENTS:\<newline>''"

definition available_requirements :: string where
  "available_requirements =
     ''\<newline>\<newline>Requirements:\<newline>- Practical recipe (30 minutes or less)\<newline>- Portions for 2 people\<newline>- Step-by-step instructions\<newline>- Start with the recipe name''"

definition build_prompt :: "string list \<Rightarrow> string list \<Rightarrow> string" where
  "build_prompt expiring_soon all_ingredients =
     (if expiring_soon \<noteq> [] then
        must_use_header @ join '', '' expiring_soon
        @ also_available_header
        @ join '', '' (filter (\<lambda>i. i \<notin> set expiring_soon) all_ingredients)
        @ must_use_requirements
      else
        available_header @ join '', '' all_ingredients @ available_requirements)"

definition build_request :: "string \<Rightarrow> chat_request" where
  "build_request prompt =
     \<lparr>model = ''gpt-4o-mini'',
      messages =
        [(''system'', ''You are a helpful chef who creates delicious, practical recipes.''),
         (''user'', prompt)],
      temperature = 8 / 10,
      max_tokens = 500\<rparr>"

text \<open>
  \<^verbatim>\<open>generate_recipe\<close> returns its result, the session it leaves behind and the requests it
  sent to the text-generation service, in the order it sent them.
\<close>

definition generate_recipe ::
  "chat_client \<Rightarrow> markdown_converter \<Rightarrow> date \<Rightarrow> session
     \<Rightarrow> (HTTPException + RecipeResponse) \<times> session \<times> chat_request list" where
  "generate_recipe client markdown today db =
     (let items = db in
      if items = [] then
        (Inl (HTTPException 400 ''Pantry is empty. Please add some ingredients first!''), db, [])
      else
        (case scan_items today items ([], []) of (expiring_soon, all_ingredients) \<Rightarrow>
           let prompt = build_prompt expiring_soon all_ingredients;
               request = build_request prompt
           in (case client request of
                 Inl e \<Rightarrow>
                   (Inl (HTTPException 500 (''Failed to generate recipe: '' @ e)), db, [request])
               | Inr recipe_text \<Rightarrow>
                   (case markdown recipe_text of
                      Inl e \<Rightarrow>
                        (Inl (HTTPException 500 (''Failed to generate recipe: '' @ e)), db,
                         [request])
                    | Inr recipe_html \<Rightarrow>
                        (Inr \<lparr>recipe = recipe_html,
                              expiring_items = expiring_soon,
                              total_items = length all_ingredients,
                              items_used =
                                (if expiring_soon \<noteq> [] then length expiring_soon
                                 else length all_ingredients)\<rparr>,
                         db, [request])))))"

section \<open>The spec's classification\<close>

text \<open>
  The spec's words: an item is expiring soon iff it has an expiry date and the number of
  days from today to that date is at most 3 (negative for an expired item).
\<close>

definition spec_expiring_soon :: "date \<Rightarrow> PantryItem \<Rightarrow> bool" where
  "spec_expiring_soon today item =
     (case expiry_date item of None \<Rightarrow> False | Some d \<Rightarrow> d - today \<le> 3)"

text \<open>The request that \<^verbatim>\<open>generate_recipe\<close> builds from the rows of a pantry.\<close>

definition recipe_request :: "date \<Rightarrow> PantryItem list \<Rightarrow> chat_request" where
  "recipe_request today items =
     (case scan_items today items ([], []) of
        (expiring_soon, all_ingredients) \<Rightarrow>
          build_request (build_prompt expiring_soon all_ingredients))"

section \<open>Test data\<close>

text \<open>
  A service that answers every request with the same text, one that raises on every
  request, and a converter that turns a first-level heading into HTML.
\<close>

definition canned_client :: chat_client where
  "canned_client request = Inr ''# Omelette''"

definition failing_client :: chat_client where
  "failing_client request = Inl ''Connection error.''"

definition heading_markdown :: markdown_converter where
  "heading_markdown text = Inr (''<h1>'' @ drop 2 text @ ''</h1>'')"

text \<open>Today is day 100: the eggs expire tomorrow, the old milk expired yesterday, the
  flour expires in ten days, the rice and the new milk have no expiry date.\<close>

definition eggs :: PantryItem where
  "eggs = \<lparr>id' = 1, name = ''Eggs'', expiry_date = Some 101\<rparr>"

definition rice :: PantryItem where
  "rice = \<lparr>id' = 2, name = ''Rice'', expiry_date = None\<rparr>"

definition milk_old :: PantryItem where
  "milk_old = \<lparr>id' = 3, name = ''Milk'', expiry_date = Some 99\<rparr>"

definition milk_new :: PantryItem where
  "milk_new = \<lparr>id' = 4, name = ''Milk'', expiry_date = None\<rparr>"

definition flour :: PantryItem where
  "flour = \<lparr>id' = 5, name = ''Flour'', expiry_date = Some 110\<rparr>"

section \<open>The loop and the handler in closed form\<close>

lemma scan_item_eq:
  "scan_item today item (es, al) =
     (if spec_expiring_soon today item then es @ [name item] else es, al @ [name item])"
  by (simp add: scan_item_def spec_expiring_soon_def Let_def split: option.split)

lemma scan_items_eq:
  "scan_items today items (es, al) =
     (es @ map name (filter (spec_expiring_soon today) items), al @ map name items)"
  by (induction items arbitrary: es al) (simp_all add: scan_item_eq)

lemma generate_recipe_nonempty:
  "db \<noteq> [] \<Longrightarrow>
   generate_recipe client markdown today db =
     (let expiring_soon = map name (filter (spec_expiring_soon today) db);
          all_ingredients = map name db
      in (case client (recipe_request today db) of
            Inl e \<Rightarrow> Inl (HTTPException 500 (''Failed to generate recipe: '' @ e))
          | Inr recipe_text \<Rightarrow>
              (case markdown recipe_text of
                 Inl e \<Rightarrow> Inl (HTTPException 500 (''Failed to generate recipe: '' @ e))
               | Inr recipe_html \<Rightarrow>
                   Inr \<lparr>recipe = recipe_html,
                        expiring_items = expiring_soon,
                        total_items = length all_ingredients,
                        items_used =
                          (if expiring_soon \<noteq> [] then length expiring_soon
                           else length all_ingredients)\<rparr>),
          db, [recipe_request today db]))"
  by (simp add: generate_recipe_def recipe_request_def scan_items_eq Let_def split: sum.split)

lemma recipe_request_eq:
  "recipe_request today db =
     build_request
       (build_prompt (map name (filter (spec_expiring_soon today) db)) (map name db))"
  by (simp add: recipe_request_def scan_items_eq)

lemma generate_recipe_sent:
  "db \<noteq> [] \<Longrightarrow> snd (snd (generate_recipe client markdown today db)) = [recipe_request today db]"
  by (simp add: generate_recipe_nonempty Let_def)

lemma find_id_None: "find (\<lambda>row. id' row = k) db = None \<longleftrightarrow> (\<forall>row\<in>set db. id' row \<noteq> k)"
  by (auto simp add: find_None_iff)

lemma find_id_Some: "find (\<lambda>row. id' row = k) db = Some item \<Longrightarrow> item \<in> set db \<and> id' item = k"
  by (auto simp add: find_Some_iff)

section \<open>Classification of expiring items\<close>

text \<open>
  C1. For every pantry item and current date, the iteration of the loop of
  \<^verbatim>\<open>generate_recipe\<close> on that item appends its name to \<^verbatim>\<open>expiring_soon\<close> if and only if the
  item has an expiry date and the number of days from today to that date is at most 3
  (negative numbers included); an item with no expiry date is never appended. Over the whole
  pantry, \<^verbatim>\<open>expiring_soon\<close> and the \<^verbatim>\<open>expiring_items\<close> of a successful response are the names
  of exactly these items, in the order of the rows.
\<close>

theorem expiring_soon_classification:
  "fst (scan_item today item (expiring_soon, all_ingredients)) =
     (if \<exists>d. expiry_date item = Some d \<and> d - today \<le> 3 then expiring_soon @ [name item]
      else expiring_soon)
   \<and> (expiry_date item = None \<longrightarrow>
        fst (scan_item today item (expiring_soon, all_ingredients)) = expiring_soon)
   \<and> fst (scan_items today items ([], [])) =
        map name (filter (\<lambda>i. \<exists>d. expiry_date i = Some d \<and> d - today \<le> 3) items)
   \<and> (\<forall>r db' sent. generate_recipe client markdown today items = (Inr r, db', sent) \<longrightarrow>
        expiring_items r =
          map name (filter (\<lambda>i. \<exists>d. expiry_date i = Some d \<and> d - today \<le> 3) items))"
proof -
  have spec: "spec_expiring_soon today = (\<lambda>i. \<exists>d. expiry_date i = Some d \<and> d - today \<le> 3)"
    by (rule ext) (simp add: spec_expiring_soon_def split: option.split)
  have one: "fst (scan_item today item (expiring_soon, all_ingredients)) =
     (if \<exists>d. expiry_date item = Some d \<and> d - today \<le> 3 then expiring_soon @ [name item]
      else expiring_soon)"
    by (simp add: scan_item_eq spec)
  have none: "expiry_date item = None \<longrightarrow>
        fst (scan_item today item (expiring_soon, all_ingredients)) = expiring_soon"
    by (simp add: one)
  have all: "fst (scan_items today items ([], [])) =
        map name (filter (\<lambda>i. \<exists>d. expiry_date i = Some d \<and> d - today \<le> 3) items)"
    by (simp add: scan_items_eq spec)
  have resp: "expiring_items r =
          map name (filter (\<lambda>i. \<exists>d. expiry_date i = Some d \<and> d - today \<le> 3) items)"
    if "generate_recipe client markdown today items = (Inr r, db', sent)" for r db' sent
  proof (cases "items = []")
    case True
    with that show ?thesis by (simp add: generate_recipe_def)
  next
    case False
    with that show ?thesis
      by (auto simp add: generate_recipe_nonempty Let_def spec split: sum.splits)
  qed
  from one none all resp show ?thesis by blast
qed


theorem expiring_soon_classification_witness:
  "expiry_date rice = None
   \<and> fst (scan_item 100 rice ([''Eggs''], [''Eggs''])) = [''Eggs'']
   \<and> fst (scan_items 100 [eggs, rice, milk_old, flour] ([], [])) = [''Eggs'', ''Milk'']
   \<and> fst (generate_recipe canned_client heading_markdown 100 [eggs, rice, milk_old, flour]) =
       Inr \<lparr>recipe = ''<h1>Omelette</h1>'', expiring_items = [''Eggs'', ''Milk''],
            total_items = 4, items_used = 2\<rparr>"
proof -
  have run: "generate_recipe canned_client heading_markdown 100 [eggs, rice, milk_old, flour] =
      (Inr \<lparr>recipe = ''<h1>Omelette</h1>'', expiring_items = [''Eggs'', ''Milk''],
            total_items = 4, items_used = 2\<rparr>,
       [eggs, rice, milk_old, flour],
       [recipe_request 100 [eggs, rice, milk_old, flour]])"
    by (simp add: generate_recipe_def recipe_request_def scan_item_def canned_client_def
        heading_markdown_def eggs_def rice_def milk_old_def flour_def)
  have none: "expiry_date rice = None"
    by (simp add: rice_def)
  from expiring_soon_classification
         [of 100 rice "[''Eggs'']" "[''Eggs'']" "[eggs, rice, milk_old, flour]"
             canned_client heading_markdown]
       run none
  show ?thesis
    by (simp add: eggs_def rice_def milk_old_def flour_def)
qed

section \<open>The prompt\<close>

text \<open>
  C2. For every non-empty pantry with at least one expiring item, the one request that
  \<^verbatim>\<open>generate_recipe\<close> sends carries the prompt whose MUST USE section is the names of exactly
  the expiring items, in the order of the rows, and whose ALSO AVAILABLE section is, in the
  order of the rows, the names that are not the name of any expiring item. When no item that
  is not expiring shares its name with an expiring item, the ALSO AVAILABLE section is the
  names of exactly the items that are not expiring, the items with no expiry date among them.
\<close>

theorem prompt_sections:
  assumes "db \<noteq> []" and "\<exists>i\<in>set db. spec_expiring_soon today i"
  shows "snd (snd (generate_recipe client markdown today db)) =
           [build_request
              (must_use_header
               @ join '', '' (map name (filter (spec_expiring_soon today) db))
               @ also_available_header
               @ join '', ''
                   (filter (\<lambda>n. n \<notin> name ` set (filter (spec_expiring_soon today) db))
                      (map name db))
               @ must_use_requirements)]
         \<and> ((\<forall>i\<in>set db. \<forall>j\<in>set db.
                spec_expiring_soon today i \<and> \<not> spec_expiring_soon today j \<longrightarrow> name i \<noteq> name j) \<longrightarrow>
             filter (\<lambda>n. n \<notin> name ` set (filter (spec_expiring_soon today) db)) (map name db) =
               map name (filter (\<lambda>i. \<not> spec_expiring_soon today i) db))"
proof -
  from assms(2) have ne: "filter (spec_expiring_soon today) db \<noteq> []"
    by (simp add: filter_empty_conv)
  have sent: "snd (snd (generate_recipe client markdown today db)) =
           [build_request
              (must_use_header
               @ join '', '' (map name (filter (spec_expiring_soon today) db))
               @ also_available_header
               @ join '', ''
                   (filter (\<lambda>n. n \<notin> name ` set (filter (spec_expiring_soon today) db))
                      (map name db))
               @ must_use_requirements)]"
    using assms(1) ne
    by (simp add: generate_recipe_sent recipe_request_eq build_prompt_def)
  have others: "filter (\<lambda>n. n \<notin> name ` set (filter (spec_expiring_soon today) db)) (map name db) =
               map name (filter (\<lambda>i. \<not> spec_expiring_soon today i) db)"
    if sep: "\<forall>i\<in>set db. \<forall>j\<in>set db.
                spec_expiring_soon today i \<and> \<not> spec_expiring_soon today j \<longrightarrow> name i \<noteq> name j"
  proof -
    have "(name j \<notin> name ` set (filter (spec_expiring_soon today) db)) = (\<not> spec_expiring_soon today j)"
      if j: "j \<in> set db" for j
    proof
      assume absent: "name j \<notin> name ` set (filter (spec_expiring_soon today) db)"
      show "\<not> spec_expiring_soon today j"
      proof
        assume "spec_expiring_soon today j"
        with j have "j \<in> set (filter (spec_expiring_soon today) db)"
          by simp
        then have "name j \<in> name ` set (filter (spec_expiring_soon today) db)"
          by (rule imageI)
        with absent show False
          by contradiction
      qed
    next
      assume later: "\<not> spec_expiring_soon today j"
      show "name j \<notin> name ` set (filter (spec_expiring_soon today) db)"
      proof
        assume "name j \<in> name ` set (filter (spec_expiring_soon today) db)"
        then obtain i where i: "i \<in> set db" "spec_expiring_soon today i" and eq: "name j = name i"
          by auto
        from sep i j later have "name i \<noteq> name j"
          by blast
        with eq show False
          by simp
      qed
    qed
    then show ?thesis
      by (simp add: filter_map comp_def cong: filter_cong)
  qed
  from sent others show ?thesis by blast
qed

text \<open>
  The theorem at a pantry of four differently named items, two of them expiring.
\<close>

theorem prompt_sections_witness:
  "[eggs, rice, milk_old, flour] \<noteq> []
   \<and> spec_expiring_soon 100 eggs
   \<and> snd (snd (generate_recipe canned_client heading_markdown 100 [eggs, rice, milk_old, flour])) =
       [build_request
          (must_use_header @ ''Eggs, Milk'' @ also_available_header @ ''Rice, Flour''
           @ must_use_requirements)]
   \<and> map name (filter (\<lambda>i. \<not> spec_expiring_soon 100 i) [eggs, rice, milk_old, flour]) =
       [''Rice'', ''Flour'']"
proof -
  have ne: "[eggs, rice, milk_old, flour] \<noteq> []"
    by simp
  have ex: "\<exists>i\<in>set [eggs, rice, milk_old, flour]. spec_expiring_soon 100 i"
    by (simp add: spec_expiring_soon_def eggs_def)
  from prompt_sections [OF ne ex, of canned_client heading_markdown]
  show ?thesis
    by (simp add: spec_expiring_soon_def eggs_def rice_def milk_old_def flour_def)
qed

text \<open>
  The ALSO AVAILABLE section filters names, not rows: with an expired milk and a milk with no
  expiry date in the pantry, the second is not expiring and still is left out of the section,
  which is empty.
\<close>

theorem also_available_counterexample:
  "spec_expiring_soon 100 milk_old \<and> \<not> spec_expiring_soon 100 milk_new
   \<and> snd (snd (generate_recipe canned_client heading_markdown 100 [milk_old, milk_new])) =
       [build_request
          (must_use_header @ ''Milk'' @ also_available_header @ [] @ must_use_requirements)]
   \<and> snd (snd (generate_recipe canned_client heading_markdown 100 [milk_old, milk_new])) \<noteq>
       [build_request
          (must_use_header @ join '', '' [name milk_old] @ also_available_header
           @ join '', '' [name milk_new] @ must_use_requirements)]"
  by (simp add: generate_recipe_def scan_item_def build_prompt_def build_request_def
      spec_expiring_soon_def canned_client_def heading_markdown_def milk_old_def milk_new_def)

section \<open>The response\<close>

text \<open>
  C3. Every successful recipe generation is over a non-empty pantry; its \<^verbatim>\<open>total_items\<close> is
  the number of rows, and its \<^verbatim>\<open>items_used\<close> is the number of expiring items when that number
  is positive, and \<^verbatim>\<open>total_items\<close> otherwise.
\<close>

theorem recipe_counts:
  assumes "generate_recipe client markdown today db = (Inr r, db', sent)"
  shows "db \<noteq> [] \<and> total_items r = length db
         \<and> items_used r =
             (if 0 < length (filter (spec_expiring_soon today) db)
              then length (filter (spec_expiring_soon today) db) else total_items r)"
proof (cases "db = []")
  case True
  with assms show ?thesis by (simp add: generate_recipe_def)
next
  case False
  with assms show ?thesis
    by (auto simp add: generate_recipe_nonempty Let_def split: sum.splits)
qed

text \<open>
  The theorem at a pantry with two expiring items out of four, and at one with none.
\<close>

theorem recipe_counts_witness:
  "generate_recipe canned_client heading_markdown 100 [eggs, rice, milk_old, flour] =
     (Inr \<lparr>recipe = ''<h1>Omelette</h1>'', expiring_items = [''Eggs'', ''Milk''],
           total_items = 4, items_used = 2\<rparr>,
      [eggs, rice, milk_old, flour], [recipe_request 100 [eggs, rice, milk_old, flour]])
   \<and> generate_recipe canned_client heading_markdown 100 [rice, flour] =
     (Inr \<lparr>recipe = ''<h1>Omelette</h1>'', expiring_items = [],
           total_items = 2, items_used = 2\<rparr>,
      [rice, flour], [recipe_request 100 [rice, flour]])"
proof -
  have some: "generate_recipe canned_client heading_markdown 100 [eggs, rice, milk_old, flour] =
     (Inr \<lparr>recipe = ''<h1>Omelette</h1>'', expiring_items = [''Eggs'', ''Milk''],
           total_items = 4, items_used = 2\<rparr>,
      [eggs, rice, milk_old, flour], [recipe_request 100 [eggs, rice, milk_old, flour]])"
    by (simp add: generate_recipe_def recipe_request_def scan_item_def canned_client_def
        heading_markdown_def eggs_def rice_def milk_old_def flour_def)
  have none: "generate_recipe canned_client heading_markdown 100 [rice, flour] =
     (Inr \<lparr>recipe = ''<h1>Omelette</h1>'', expiring_items = [],
           total_items = 2, items_used = 2\<rparr>,
      [rice, flour], [recipe_request 100 [rice, flour]])"
    by (simp add: generate_recipe_def recipe_request_def scan_item_def canned_client_def
        heading_markdown_def rice_def flour_def)
  from recipe_counts [OF some] recipe_counts [OF none] some none
  show ?thesis
    by simp
qed

section \<open>Failures of recipe generation\<close>

text \<open>
  C4. On an empty pantry \<^verbatim>\<open>generate_recipe\<close> fails with status 400 and the empty-pantry
  detail, and sends no request to the text-generation service.
\<close>

theorem empty_pantry_rejected:
  "generate_recipe client markdown today [] =
     (Inl (HTTPException 400 ''Pantry is empty. Please add some ingredients first!''), [], [])"
  by (simp add: generate_recipe_def)

text \<open>
  C5. When the text-generation call on the request of a non-empty pantry fails with a reason,
  \<^verbatim>\<open>generate_recipe\<close> fails with status 500 and a detail that ends with the reason; it has
  sent that one request and no other, and the rows of the pantry are as before.
\<close>

theorem generation_failure:
  assumes "db \<noteq> []" and "client (recipe_request today db) = Inl reason"
  shows "generate_recipe client markdown today db =
           (Inl (HTTPException 500 (''Failed to generate recipe: '' @ reason)), db,
            [recipe_request today db])"
  using assms by (simp add: generate_recipe_nonempty)

text \<open>
  The theorem at a pantry of two items and a service that refuses every connection.
\<close>

theorem generation_failure_witness:
  "[eggs, rice] \<noteq> []
   \<and> failing_client (recipe_request 100 [eggs, rice]) = Inl ''Connection error.''
   \<and> generate_recipe failing_client heading_markdown 100 [eggs, rice] =
       (Inl (HTTPException 500 ''Failed to generate recipe: Connection error.''),
        [eggs, rice], [recipe_request 100 [eggs, rice]])"
proof -
  have ne: "[eggs, rice] \<noteq> []"
    by simp
  have fails: "failing_client (recipe_request 100 [eggs, rice]) = Inl ''Connection error.''"
    by (simp add: failing_client_def)
  from generation_failure
         [of "[eggs, rice]" failing_client 100 "''Connection error.''" heading_markdown]
       ne fails
  show ?thesis
    by simp
qed

text \<open>
  C9. \<^verbatim>\<open>generate_recipe\<close> leaves the rows of the pantry as they were, whatever its result.
\<close>

theorem generate_recipe_reads_only:
  "fst (snd (generate_recipe client markdown today db)) = db"
  by (simp add: generate_recipe_def Let_def split: prod.split sum.split)

section \<open>Deleting and listing\<close>

text \<open>
  C6. \<^verbatim>\<open>delete_pantry_item\<close> fails with status 404 if and only if no row has the id. When
  the ids of the rows are unique and a row has the id, the handler succeeds and removes that
  one row: the rows before it and after it remain, in their order, they are what the next
  \<^verbatim>\<open>get_pantry_items\<close> returns, and none of them has the id.
\<close>

theorem delete_pantry_item_spec:
  "((\<exists>d. fst (delete_pantry_item item_id db) = Inl (HTTPException 404 d)) \<longleftrightarrow>
            (\<forall>row\<in>set db. id' row \<noteq> item_id))
         \<and> (unique_ids db \<and> (\<exists>row\<in>set db. id' row = item_id) \<longrightarrow>
             (\<exists>before item after.
                db = before @ item # after \<and> id' item = item_id
                \<and> delete_pantry_item item_id db =
                    (Inr [(''message'', JStr ''Item deleted successfully''), (''id'', JInt item_id)],
                     before @ after)
                \<and> fst (get_pantry_items (snd (delete_pantry_item item_id db))) = before @ after
                \<and> (\<forall>row\<in>set (before @ after). id' row \<noteq> item_id)))"
proof -
  have nf: "(\<exists>d. fst (delete_pantry_item item_id db) = Inl (HTTPException 404 d)) \<longleftrightarrow>
            (\<forall>row\<in>set db. id' row \<noteq> item_id)"
  proof (cases "find (\<lambda>row. id' row = item_id) db")
    case None
    moreover from None have "\<forall>row\<in>set db. id' row \<noteq> item_id"
      by (simp only: find_id_None)
    ultimately show ?thesis
      by (simp add: delete_pantry_item_def)
  next
    case (Some item)
    moreover from Some have "item \<in> set db \<and> id' item = item_id"
      by (rule find_id_Some)
    ultimately show ?thesis
      by (auto simp add: delete_pantry_item_def)
  qed
  have found: "\<exists>before item after.
                db = before @ item # after \<and> id' item = item_id
                \<and> delete_pantry_item item_id db =
                    (Inr [(''message'', JStr ''Item deleted successfully''), (''id'', JInt item_id)],
                     before @ after)
                \<and> fst (get_pantry_items (snd (delete_pantry_item item_id db))) = before @ after
                \<and> (\<forall>row\<in>set (before @ after). id' row \<noteq> item_id)"
    if uniq: "unique_ids db" and ex: "\<exists>row\<in>set db. id' row = item_id"
  proof -
    from ex obtain item where f: "find (\<lambda>row. id' row = item_id) db = Some item"
      by (cases "find (\<lambda>row. id' row = item_id) db") (auto simp add: find_id_None)
    then have mem: "item \<in> set db" and idk: "id' item = item_id"
      by (auto dest: find_id_Some)
    from mem obtain before after where split: "db = before @ item # after"
      by (auto simp add: in_set_conv_decomp)
    from uniq split have "id' item \<notin> id' ` set (before @ after)"
      by (auto simp add: unique_ids_def)
    then have rest: "\<forall>row\<in>set (before @ after). id' row \<noteq> item_id"
      unfolding idk [symmetric] by (metis imageI)
    then have del: "session_delete item db = before @ after"
      by (simp add: session_delete_def split idk)
    from f del have run: "delete_pantry_item item_id db =
                    (Inr [(''message'', JStr ''Item deleted successfully''), (''id'', JInt item_id)],
                     before @ after)"
      by (simp add: delete_pantry_item_def)
    from split idk run rest
    have "db = before @ item # after \<and> id' item = item_id
          \<and> delete_pantry_item item_id db =
              (Inr [(''message'', JStr ''Item deleted successfully''), (''id'', JInt item_id)],
               before @ after)
          \<and> fst (get_pantry_items (snd (delete_pantry_item item_id db))) = before @ after
          \<and> (\<forall>row\<in>set (before @ after). id' row \<noteq> item_id)"
      by (simp add: get_pantry_items_def)
    then show ?thesis
      by (intro exI)
  qed
  from nf found show ?thesis by blast
qed

text \<open>
  The theorem at a pantry of three items, for the id of the second and for an id that no row
  has.
\<close>

theorem delete_pantry_item_spec_witness:
  "unique_ids [eggs, rice, milk_old]
   \<and> delete_pantry_item 2 [eggs, rice, milk_old] =
       (Inr [(''message'', JStr ''Item deleted successfully''), (''id'', JInt 2)],
        [eggs, milk_old])
   \<and> fst (get_pantry_items (snd (delete_pantry_item 2 [eggs, rice, milk_old]))) = [eggs, milk_old]
   \<and> fst (delete_pantry_item 7 [eggs, rice, milk_old]) = Inl (HTTPException 404 ''Item not found'')"
  using delete_pantry_item_spec [of 2 "[eggs, rice, milk_old]"]
    delete_pantry_item_spec [of 7 "[eggs, rice, milk_old]"]
  by (simp add: unique_ids_def delete_pantry_item_def session_delete_def get_pantry_items_def
      eggs_def rice_def milk_old_def)

text \<open>
  C7. \<^verbatim>\<open>clear_pantry\<close> removes every row, so that the next \<^verbatim>\<open>get_pantry_items\<close> returns the
  empty list, and its result is the message \<^verbatim>\<open>Pantry cleared\<close> alone. The bulk delete of the
  store returns the number of rows removed; the handler does not pass it on.
\<close>

theorem clear_pantry_spec:
  "clear_pantry db = (Inr [(''message'', JStr ''Pantry cleared'')], [])
   \<and> fst (get_pantry_items (snd (clear_pantry db))) = []
   \<and> query_delete db = (length db, [])"
  by (simp add: clear_pantry_def query_delete_def get_pantry_items_def)

text \<open>
  The result of \<^verbatim>\<open>clear_pantry\<close> does not report the number of rows removed: it is the same
  for a pantry of two rows and for a pantry of three.
\<close>

theorem clear_pantry_count_counterexample:
  "fst (clear_pantry [eggs, rice]) = Inr [(''message'', JStr ''Pantry cleared'')]
   \<and> fst (clear_pantry [eggs, rice, flour]) = fst (clear_pantry [eggs, rice])
   \<and> fst (query_delete [eggs, rice]) = 2 \<and> fst (query_delete [eggs, rice, flour]) = 3"
  by (simp add: clear_pantry_def query_delete_def)

text \<open>
  C8. Two consecutive calls of \<^verbatim>\<open>get_pantry_items\<close> return the same rows.
\<close>

theorem get_pantry_items_repeat:
  "fst (get_pantry_items (snd (get_pantry_items db))) = fst (get_pantry_items db)
   \<and> set (fst (get_pantry_items (snd (get_pantry_items db)))) = set (fst (get_pantry_items db))"
  by (simp add: get_pantry_items_def)

text \<open>
  C10. On an empty pantry \<^verbatim>\<open>clear_pantry\<close> succeeds with the message \<^verbatim>\<open>Pantry cleared\<close>,
  the result it gives on every pantry.
\<close>

theorem clear_empty_pantry:
  "clear_pantry [] = (Inr [(''message'', JStr ''Pantry cleared'')], [])
   \<and> fst (clear_pantry []) = fst (clear_pantry db)"
  by (simp add: clear_pantry_def query_delete_def)

end
